theory Spec2Isabelle
  imports Complex_Main "HOL-Library.AList"
begin

section \<open>Python values and exceptions\<close>

text \<open>
  The analyzers of \<^verbatim>\<open>kritis_analyzer_v50.py\<close> work on what \<^verbatim>\<open>json.loads\<close> returns and on
  rows of the store. A string is a list of characters (code points below 256); a dict keeps
  its keys in insertion order, as an association list with distinct keys.
  Every exception the modelled code can meet is a value of \<open>exn\<close>; all of them are
  subclasses of Python's \<^verbatim>\<open>Exception\<close>, so an \<^verbatim>\<open>except Exception\<close> handler catches each.
\<close>

datatype exn =
    BackendError
  | ValueError
  | JSONDecodeError
  | TypeError
  | AttributeError
  | StoreError
  | OverflowError

datatype json =
    JNull
  | JBool bool
  | JInt int
  | JFloat real
  | JString string
  | JArray "json list"
  | JObject "(string \<times> json) list"

datatype level = DEBUG | INFO | WARNING | ERROR

datatype message =
    AnalysisFailed exn
  | TemporalInconsistency string string string string string
  | PreambleLawRelationship string string string
  | LawRelationship string string string
  | LawRelationshipExistsOrFailed exn
  | TargetLawNotFound json
  | ArticleReference string string
  | ArticleReferenceExistsOrFailed exn
  | FailedToProcessReference json exn
  | FailedToProcessPreambleReference json exn
  | ErrorFindingTargetLaw exn
  | ErrorFindingTargetArticle exn
  | UpdatedArticle string string string
  | FailedToUpdateArticleStatus exn

type_synonym log_entry = "level \<times> message"

subsection \<open>String methods\<close>

definition startswith :: "string \<Rightarrow> string \<Rightarrow> bool" where
  "startswith s p = (take (length p) s = p)"

definition endswith :: "string \<Rightarrow> string \<Rightarrow> bool" where
  "endswith s p = startswith (rev s) (rev p)"

fun is_substring :: "string \<Rightarrow> string \<Rightarrow> bool" where
  "is_substring p [] = (p = [])"
| "is_substring p (c # cs) = (startswith (c # cs) p \<or> is_substring p cs)"

text \<open>\<^verbatim>\<open>str.isspace\<close> on the code points below 256.\<close>

definition is_space :: "char \<Rightarrow> bool" where
  "is_space c = ((of_char c :: nat) \<in> {9, 10, 11, 12, 13, 28, 29, 30, 31, 32, 133, 160})"

definition strip :: "string \<Rightarrow> string" where
  "strip s = rev (dropWhile is_space (rev (dropWhile is_space s)))"

subsection \<open>Truthiness, membership, item assignment\<close>

fun truthy :: "json \<Rightarrow> bool" where
  "truthy JNull = False"
| "truthy (JBool b) = b"
| "truthy (JInt i) = (i \<noteq> 0)"
| "truthy (JFloat f) = (f \<noteq> 0)"
| "truthy (JString s) = (s \<noteq> [])"
| "truthy (JArray xs) = (xs \<noteq> [])"
| "truthy (JObject kvs) = (kvs \<noteq> [])"

text \<open>
  \<^verbatim>\<open>key in value\<close>: a key test on a dict, an element test on a list, a substring test on a
  string, and \<^verbatim>\<open>TypeError\<close> on \<^verbatim>\<open>None\<close>, a bool or a number.
\<close>

fun py_contains :: "json \<Rightarrow> string \<Rightarrow> exn + bool" where
  "py_contains (JObject kvs) k = Inr (k \<in> set (map fst kvs))"
| "py_contains (JArray xs) k = Inr (JString k \<in> set xs)"
| "py_contains (JString s) k = Inr (is_substring k s)"
| "py_contains JNull k = Inl TypeError"
| "py_contains (JBool b) k = Inl TypeError"
| "py_contains (JInt i) k = Inl TypeError"
| "py_contains (JFloat f) k = Inl TypeError"

text \<open>\<^verbatim>\<open>value[key] = v\<close> with a string key: only a dict accepts it.\<close>

fun py_setitem :: "json \<Rightarrow> string \<Rightarrow> json \<Rightarrow> exn + json" where
  "py_setitem (JObject kvs) k v = Inr (JObject (AList.update k v kvs))"
| "py_setitem JNull k v = Inl TypeError"
| "py_setitem (JBool b) k v = Inl TypeError"
| "py_setitem (JInt i) k v = Inl TypeError"
| "py_setitem (JFloat f) k v = Inl TypeError"
| "py_setitem (JString s) k v = Inl TypeError"
| "py_setitem (JArray xs) k v = Inl TypeError"

text \<open>\<^verbatim>\<open>if key not in analysis: analysis[key] = default\<close>\<close>

definition set_if_missing :: "json \<Rightarrow> string \<Rightarrow> json \<Rightarrow> exn + json" where
  "set_if_missing analysis k d =
     (case py_contains analysis k of
        Inl e \<Rightarrow> Inl e
      | Inr present \<Rightarrow> if \<not> present then py_setitem analysis k d else Inr analysis)"

section \<open>Stage 2: the structured extraction of \<^verbatim>\<open>_analyze_content_v50\<close>\<close>

text \<open>
  The generative backend and \<^verbatim>\<open>json.loads\<close> are collaborators outside the repository; the
  model takes them as arguments. \<^verbatim>\<open>generate_content\<close> either raises or returns a response,
  and reading \<^verbatim>\<open>response.text\<close> either raises or gives the text.
\<close>

datatype response = Response "exn + string"

fun response_text :: "response \<Rightarrow> exn + string" where
  "response_text (Response t) = t"

type_synonym backend = "string \<Rightarrow> exn + response"
type_synonym json_loads = "string \<Rightarrow> exn + json"

definition clean_response :: "string \<Rightarrow> string" where
  "clean_response analysis_text =
     (let t1 = (if startswith analysis_text ''```json'' then drop 7 analysis_text
                else analysis_text)
      in if endswith t1 ''```'' then take (length t1 - 3) t1 else t1)"

definition empty_tags :: json where
  "empty_tags =
     JObject [(''person'', JArray []), (''organization'', JArray []), (''concept'', JArray [])]"

definition empty_summary :: json where
  "empty_summary =
     JObject [(''informal_summary_title'', JString []), (''informal_summary'', JString [])]"

definition fallback_v50 :: json where
  "fallback_v50 =
     JObject [(''tags'', empty_tags),
              (''analysis'', JObject [(''pt'', empty_summary), (''en'', empty_summary)]),
              (''cross_references'', JArray [])]"

text \<open>The block under \<^verbatim>\<open># Validate and normalize structure\<close>.\<close>

definition normalize_structure_v50 :: "json \<Rightarrow> exn + json" where
  "normalize_structure_v50 analysis =
     (case set_if_missing analysis ''tags'' empty_tags of
        Inl e \<Rightarrow> Inl e
      | Inr analysis1 \<Rightarrow> set_if_missing analysis1 ''cross_references'' (JArray []))"

text \<open>The body of the \<^verbatim>\<open>try\<close> block: \<open>Inl e\<close> is the exception \<open>e\<close> reaching the handler.\<close>

definition analyze_content_v50_try :: "backend \<Rightarrow> json_loads \<Rightarrow> string \<Rightarrow> exn + json" where
  "analyze_content_v50_try model loads analysis_prompt =
     (case model analysis_prompt of
        Inl e \<Rightarrow> Inl e
      | Inr response \<Rightarrow>
          (case response_text response of
             Inl e \<Rightarrow> Inl e
           | Inr text \<Rightarrow>
               (case loads (clean_response (strip text)) of
                  Inl e \<Rightarrow> Inl e
                | Inr analysis \<Rightarrow> normalize_structure_v50 analysis)))"

definition analyze_content_v50 :: "backend \<Rightarrow> json_loads \<Rightarrow> string \<Rightarrow> json \<times> log_entry list" where
  "analyze_content_v50 model loads analysis_prompt =
     (case analyze_content_v50_try model loads analysis_prompt of
        Inr analysis \<Rightarrow> (analysis, [])
      | Inl e \<Rightarrow> (fallback_v50, [(ERROR, AnalysisFailed e)]))"

subsection \<open>The same operation in \<^verbatim>\<open>kritis_analyzer_v6.py\<close>\<close>

definition fallback_v6 :: json where
  "fallback_v6 =
     JObject [(''tags'', empty_tags),
              (''informal_summary_title'', JString []),
              (''informal_summary'', JString []),
              (''cross_references'', JArray [])]"

definition normalize_structure_v6 :: "json \<Rightarrow> exn + json" where
  "normalize_structure_v6 analysis =
     (case set_if_missing analysis ''tags'' empty_tags of
        Inl e \<Rightarrow> Inl e
      | Inr a1 \<Rightarrow>
          (case set_if_missing a1 ''cross_references'' (JArray []) of
             Inl e \<Rightarrow> Inl e
           | Inr a2 \<Rightarrow>
               (case set_if_missing a2 ''informal_summary_title'' (JString []) of
                  Inl e \<Rightarrow> Inl e
                | Inr a3 \<Rightarrow> set_if_missing a3 ''informal_summary'' (JString []))))"

definition analyze_content_v6_map_try :: "backend \<Rightarrow> json_loads \<Rightarrow> string \<Rightarrow> exn + json" where
  "analyze_content_v6_map_try model loads analysis_prompt =
     (case model analysis_prompt of
        Inl e \<Rightarrow> Inl e
      | Inr response \<Rightarrow>
          (case response_text response of
             Inl e \<Rightarrow> Inl e
           | Inr text \<Rightarrow>
               (case loads (clean_response (strip text)) of
                  Inl e \<Rightarrow> Inl e
                | Inr analysis \<Rightarrow> normalize_structure_v6 analysis)))"

definition analyze_content_v6_map :: "backend \<Rightarrow> json_loads \<Rightarrow> string \<Rightarrow> json \<times> log_entry list" where
  "analyze_content_v6_map model loads analysis_prompt =
     (case analyze_content_v6_map_try model loads analysis_prompt of
        Inr analysis \<Rightarrow> (analysis, [])
      | Inl e \<Rightarrow> (fallback_v6, [(ERROR, AnalysisFailed e)]))"

section \<open>Stage 3: the store and the knowledge graph linker\<close>

subsection \<open>Strings, regular expressions and dates\<close>

text \<open>
  Calendar dates of the proleptic Gregorian calendar, as \<^verbatim>\<open>datetime.date\<close> has them: year
  1 to 9999, month, day.
\<close>

type_synonym date = "nat \<times> nat \<times> nat"

text \<open>
  Three builtins of Python are computed here on a part of their domain and taken from the
  interpreter, as the fields of \<open>python\<close>, on the rest: \<^verbatim>\<open>str.upper\<close> on a string with a
  character outside ASCII (it maps every cased letter of Unicode, some of them to several
  characters); \<^verbatim>\<open>datetime.fromisoformat(s).date()\<close> on a string that is not of the date-only
  form \<^verbatim>\<open>YYYY-MM-DD\<close> (the other forms that are accepted depend on the version of Python);
  and \<^verbatim>\<open>int\<close> on more than 640 digits (from version 3.11 it raises \<^verbatim>\<open>ValueError\<close> on more
  digits than \<^verbatim>\<open>sys.get_int_max_str_digits()\<close>, which is 4300 unless configured and cannot
  be configured below 640).
\<close>

record python =
  py_upper :: "string \<Rightarrow> string"
  py_fromisoformat :: "string \<Rightarrow> exn + date"
  py_int :: "string \<Rightarrow> exn + int"

text \<open>
  \<^verbatim>\<open>str.upper\<close>: on a string of ASCII characters the letters \<open>a\<close> to \<open>z\<close> become \<open>A\<close> to \<open>Z\<close>
  and the other characters are left as they are. \<open>lower_char\<close> is the case folding of the
  store, on the letters \<open>A\<close> to \<open>Z\<close>.
\<close>

definition is_ascii :: "char \<Rightarrow> bool" where
  "is_ascii c = ((of_char c :: nat) < 128)"

definition upper_char :: "char \<Rightarrow> char" where
  "upper_char c =
     (let n = (of_char c :: nat) in if 97 \<le> n \<and> n \<le> 122 then char_of (n - 32) else c)"

definition lower_char :: "char \<Rightarrow> char" where
  "lower_char c =
     (let n = (of_char c :: nat) in if 65 \<le> n \<and> n \<le> 90 then char_of (n + 32) else c)"

definition upper :: "python \<Rightarrow> string \<Rightarrow> string" where
  "upper py s = (if list_all is_ascii s then map upper_char s else py_upper py s)"

text \<open>Python's \<^verbatim>\<open><\<close> on strings: lexicographic, by code point.\<close>

fun str_lt :: "string \<Rightarrow> string \<Rightarrow> bool" where
  "str_lt [] [] = False"
| "str_lt [] (y # ys) = True"
| "str_lt (x # xs) [] = False"
| "str_lt (x # xs) (y # ys) = (if x = y then str_lt xs ys else (of_char x :: nat) < of_char y)"

text \<open>
  \<^verbatim>\<open>re.search(r'/([^/]+)$', url)\<close>: the group is what follows the last \<^verbatim>\<open>/\<close>, when the
  string has a \<^verbatim>\<open>/\<close> and something follows it; there is no match otherwise.
\<close>

definition url_slug :: "string \<Rightarrow> string option" where
  "url_slug url =
     (let tail = rev (takeWhile (\<lambda>c. c \<noteq> CHR ''/'') (rev url))
      in if CHR ''/'' \<in> set url \<and> tail \<noteq> [] then Some tail else None)"

definition is_digit :: "char \<Rightarrow> bool" where
  "is_digit c = (48 \<le> (of_char c :: nat) \<and> (of_char c :: nat) \<le> 57)"

definition digit_val :: "char \<Rightarrow> nat" where
  "digit_val c = of_char c - 48"

definition nat_of_digits :: "string \<Rightarrow> nat" where
  "nat_of_digits ds = foldl (\<lambda>n c. 10 * n + digit_val c) 0 ds"

text \<open>\<^verbatim>\<open>re.search(r'(\d+)', article_number)\<close>: the first run of digits, empty when none.\<close>

definition first_digits :: "string \<Rightarrow> string" where
  "first_digits s = takeWhile is_digit (dropWhile (\<lambda>c. \<not> is_digit c) s)"

text \<open>
  \<^verbatim>\<open>int\<close> on a run of decimal digits: up to 640 digits the conversion succeeds in every
  version and configuration of Python; beyond, it is left to \<open>py_int\<close>.
\<close>

definition int_of_str :: "python \<Rightarrow> string \<Rightarrow> exn + int" where
  "int_of_str py ds = (if length ds \<le> 640 then Inr (int (nat_of_digits ds)) else py_int py ds)"

definition is_leap :: "nat \<Rightarrow> bool" where
  "is_leap y = (y mod 4 = 0 \<and> (y mod 100 \<noteq> 0 \<or> y mod 400 = 0))"

definition days_in_month :: "nat \<Rightarrow> nat \<Rightarrow> nat" where
  "days_in_month y m =
     (if m = 2 then (if is_leap y then 29 else 28)
      else if m = 4 \<or> m = 6 \<or> m = 9 \<or> m = 11 then 30 else 31)"

fun valid_date :: "date \<Rightarrow> bool" where
  "valid_date (y, m, d) =
     (1 \<le> y \<and> y \<le> 9999 \<and> 1 \<le> m \<and> m \<le> 12 \<and> 1 \<le> d \<and> d \<le> days_in_month y m)"

text \<open>
  \<^verbatim>\<open>datetime.fromisoformat(s).date()\<close>. On the date-only form \<^verbatim>\<open>YYYY-MM-DD\<close> (ten characters,
  the form in which this program writes enactment dates,
  \<^verbatim>\<open>f"{year:04d}-{month:02d}-{day:02d}"\<close>) the result is that calendar day, or \<^verbatim>\<open>ValueError\<close>
  when there is no such day. Every other string is left to \<open>py_fromisoformat\<close>.
\<close>

definition fromisoformat :: "python \<Rightarrow> string \<Rightarrow> exn + date" where
  "fromisoformat py s =
     (if length s = 10 \<and> s ! 4 = CHR ''-'' \<and> s ! 7 = CHR ''-''
         \<and> list_all is_digit (take 4 s @ take 2 (drop 5 s) @ drop 8 s)
      then (let dt = (nat_of_digits (take 4 s), nat_of_digits (take 2 (drop 5 s)),
                      nat_of_digits (drop 8 s))
            in if valid_date dt then Inr dt else Inl ValueError)
      else py_fromisoformat py s)"

text \<open>
  \<^verbatim>\<open>enactment - timedelta(days=1)\<close>: the day before; before the first day of year 1 there is
  no date, and the subtraction raises \<^verbatim>\<open>OverflowError\<close>.
\<close>

fun minus_one_day :: "date \<Rightarrow> exn + date" where
  "minus_one_day (y, m, d) =
     (if 1 < d then Inr (y, m, d - 1)
      else if 1 < m then Inr (y, m - 1, days_in_month y (m - 1))
      else if 1 < y then Inr (y - 1, 12, 31)
      else Inl OverflowError)"

definition digit_char :: "nat \<Rightarrow> char" where
  "digit_char n = char_of (48 + n mod 10)"

fun isoformat :: "date \<Rightarrow> string" where
  "isoformat (y, m, d) =
     [digit_char (y div 1000), digit_char (y div 100), digit_char (y div 10), digit_char y]
     @ ''-'' @ [digit_char (m div 10), digit_char m]
     @ ''-'' @ [digit_char (d div 10), digit_char d]"




subsection \<open>The store\<close>

text \<open>
  The rows of the four tables the linker reads and writes, with the columns it uses. The
  store answers requests in the order of its rows. A request to the store may fail for
  reasons outside the program (the network, the service, a constraint of the schema that
  is not modelled): \<open>faults\<close> is the schedule of these failures, one entry for each
  request the program sends, in order (\<open>True\<close>: this request raises); past the end of
  the schedule no request fails. The log of the module is part of the state.
\<close>

record law_row =
  law_id :: string
  slug :: string
  official_number :: string
  enactment_date :: "string option"

record article_row =
  article_id :: string
  article_law_id :: string
  article_order :: int
  status_id :: string
  valid_to :: "string option"

type_synonym link_row = "string \<times> string \<times> string"

record world =
  laws :: "law_row list"
  law_articles :: "article_row list"
  law_relationships :: "link_row list"
  law_article_references :: "link_row list"
  faults :: "bool list"
  logged :: "log_entry list"

definition log_add :: "log_entry \<Rightarrow> world \<Rightarrow> world" where
  "log_add entry w = w\<lparr>logged := logged w @ [entry]\<rparr>"

definition request_fails :: "world \<Rightarrow> bool" where
  "request_fails w = (case faults w of [] \<Rightarrow> False | f # fs \<Rightarrow> f)"

definition next_request :: "world \<Rightarrow> world" where
  "next_request w = w\<lparr>faults := tl (faults w)\<rparr>"

text \<open>\<^verbatim>\<open>table('laws').select('id, enactment_date')\<close> with one filter, then \<^verbatim>\<open>.execute()\<close>.\<close>

type_synonym law_hit = "string \<times> string option"

definition select_laws :: "(law_row \<Rightarrow> bool) \<Rightarrow> world \<Rightarrow> (exn + law_hit list) \<times> world" where
  "select_laws matching w =
     (if request_fails w then (Inl StoreError, next_request w)
      else (Inr (map (\<lambda>l. (law_id l, enactment_date l)) (filter matching (laws w))),
            next_request w))"

text \<open>
  The \<^verbatim>\<open>ilike\<close> filter of the store: the pattern matches the whole text, letters compared
  without case; \<^verbatim>\<open>%\<close> (which the request may also write \<^verbatim>\<open>*\<close>) stands for any run of
  characters and \<^verbatim>\<open>_\<close> for any one character. The escape character of the pattern language
  is not modelled.
\<close>

fun like_match :: "string \<Rightarrow> string \<Rightarrow> bool" where
  "like_match [] [] = True"
| "like_match [] (c # cs) = False"
| "like_match (p # ps) [] = ((p = CHR ''%'' \<or> p = CHR ''*'') \<and> like_match ps [])"
| "like_match (p # ps) (c # cs) =
     (if p = CHR ''%'' \<or> p = CHR ''*'' then like_match ps (c # cs) \<or> like_match (p # ps) cs
      else if p = CHR ''_'' then like_match ps cs
      else p = c \<and> like_match ps cs)"

definition ilike :: "string \<Rightarrow> string \<Rightarrow> bool" where
  "ilike text pattern = like_match (map lower_char pattern) (map lower_char text)"

text \<open>
  \<^verbatim>\<open>table('law_articles').select('id').eq('law_id', ...).eq('article_order', ...)
  .eq('status_id', 'ACTIVE').execute()\<close>
\<close>

definition select_active_articles :: "string \<Rightarrow> int \<Rightarrow> world \<Rightarrow> (exn + string list) \<times> world" where
  "select_active_articles target_law_id order w =
     (if request_fails w then (Inl StoreError, next_request w)
      else (Inr (map article_id
                  (filter (\<lambda>a. article_law_id a = target_law_id \<and> article_order a = order
                                \<and> status_id a = ''ACTIVE'') (law_articles w))),
            next_request w))"

text \<open>
  Modelled from the spec: the declarations of the tables \<^verbatim>\<open>law_relationships\<close> and
  \<^verbatim>\<open>law_article_references\<close> are not among the sources. A LinkRecord that already exists
  (same source, same target, same kind) is rejected by the store: the insert raises, which
  is what the handlers of the linker expect (\<^verbatim>\<open># Relationship might already exist\<close>).
\<close>

definition insert_law_relationship :: "link_row \<Rightarrow> world \<Rightarrow> (exn + unit) \<times> world" where
  "insert_law_relationship row w =
     (if request_fails w \<or> row \<in> set (law_relationships w)
      then (Inl StoreError, next_request w)
      else (Inr (), (next_request w)\<lparr>law_relationships := law_relationships w @ [row]\<rparr>))"

definition insert_law_article_reference :: "link_row \<Rightarrow> world \<Rightarrow> (exn + unit) \<times> world" where
  "insert_law_article_reference row w =
     (if request_fails w \<or> row \<in> set (law_article_references w)
      then (Inl StoreError, next_request w)
      else (Inr (), (next_request w)
                      \<lparr>law_article_references := law_article_references w @ [row]\<rparr>))"

text \<open>
  \<^verbatim>\<open>table('law_articles').update({'status_id': ..., 'valid_to': ...}).eq('id', ...).execute()\<close>
\<close>

definition update_article :: "string \<Rightarrow> string \<Rightarrow> string \<Rightarrow> world \<Rightarrow> (exn + unit) \<times> world" where
  "update_article target_article_id new_status new_valid_to w =
     (if request_fails w then (Inl StoreError, next_request w)
      else (Inr (), (next_request w)
              \<lparr>law_articles :=
                 map (\<lambda>a. if article_id a = target_article_id
                          then a\<lparr>status_id := new_status, valid_to := Some new_valid_to\<rparr>
                          else a) (law_articles w)\<rparr>))"

text \<open>The warnings of the temporal consistency check that the log holds, oldest first.\<close>

fun is_temporal_warning :: "log_entry \<Rightarrow> bool" where
  "is_temporal_warning (lv, TemporalInconsistency sl sd rel tg td) = (lv = WARNING)"
| "is_temporal_warning (lv, m) = False"

definition temporal_warnings :: "world \<Rightarrow> log_entry list" where
  "temporal_warnings w = filter is_temporal_warning (logged w)"

subsection \<open>Target resolution\<close>

text \<open>
  The references come from the backend, so a field of a reference may hold any JSON value.
  A value that is not a string is rendered by Python's \<^verbatim>\<open>str()\<close> when it is put in a filter
  (the request builder and the f-string of the partial match both format it); that
  rendering is taken as the argument \<open>str_of\<close>, and a string is itself.
\<close>

definition formatted :: "(json \<Rightarrow> string) \<Rightarrow> json \<Rightarrow> string" where
  "formatted str_of v = (case v of JString s \<Rightarrow> s | _ \<Rightarrow> str_of v)"

definition first_hit :: "law_hit list \<Rightarrow> law_hit option" where
  "first_hit rows = (case rows of [] \<Rightarrow> None | row # _ \<Rightarrow> Some row)"

text \<open>
  \<^verbatim>\<open># Priority 1: URL-based matching\<close>. \<^verbatim>\<open>re.search\<close> on a value that is not a string raises
  \<^verbatim>\<open>TypeError\<close>. The result \<open>Inr None\<close> is falling through to the next priority.
\<close>

definition url_based_matching :: "json \<Rightarrow> world \<Rightarrow> (exn + law_hit option) \<times> world" where
  "url_based_matching url w =
     (if truthy url then
        (case url of
           JString u \<Rightarrow>
             (case url_slug u of
                None \<Rightarrow> (Inr None, w)
              | Some sl \<Rightarrow>
                  (case select_laws (\<lambda>l. slug l = sl) w of
                     (Inl e, w1) \<Rightarrow> (Inl e, w1)
                   | (Inr rows, w1) \<Rightarrow> (Inr (first_hit rows), w1)))
         | _ \<Rightarrow> (Inl TypeError, w))
      else (Inr None, w))"

text \<open>\<^verbatim>\<open># Priority 2: Number-based matching\<close>, the exact match and then the partial match.\<close>

definition number_based_matching ::
  "(json \<Rightarrow> string) \<Rightarrow> json \<Rightarrow> world \<Rightarrow> (exn + law_hit option) \<times> world" where
  "number_based_matching str_of number w =
     (if truthy number then
        (case select_laws (\<lambda>l. official_number l = formatted str_of number) w of
           (Inl e, w1) \<Rightarrow> (Inl e, w1)
         | (Inr (row # rows), w1) \<Rightarrow> (Inr (Some row), w1)
         | (Inr [], w1) \<Rightarrow>
             (case select_laws
                     (\<lambda>l. ilike (official_number l) (''%'' @ formatted str_of number @ ''%'')) w1 of
                (Inl e, w2) \<Rightarrow> (Inl e, w2)
              | (Inr rows, w2) \<Rightarrow> (Inr (first_hit rows), w2)))
      else (Inr None, w))"

definition find_target_law_v50_try ::
  "(json \<Rightarrow> string) \<Rightarrow> json \<Rightarrow> json \<Rightarrow> world \<Rightarrow> (exn + law_hit option) \<times> world" where
  "find_target_law_v50_try str_of url number w =
     (case url_based_matching url w of
        (Inl e, w1) \<Rightarrow> (Inl e, w1)
      | (Inr (Some row), w1) \<Rightarrow> (Inr (Some row), w1)
      | (Inr None, w1) \<Rightarrow> number_based_matching str_of number w1)"

definition find_target_law_v50 ::
  "(json \<Rightarrow> string) \<Rightarrow> json \<Rightarrow> json \<Rightarrow> world \<Rightarrow> law_hit option \<times> world" where
  "find_target_law_v50 str_of url number w =
     (case find_target_law_v50_try str_of url number w of
        (Inr found, w1) \<Rightarrow> (found, w1)
      | (Inl e, w1) \<Rightarrow> (None, log_add (DEBUG, ErrorFindingTargetLaw e) w1))"

definition find_target_article_v50_try ::
  "python \<Rightarrow> string \<Rightarrow> json \<Rightarrow> world \<Rightarrow> (exn + string option) \<times> world" where
  "find_target_article_v50_try py target_law_id article_number w =
     (case article_number of
        JString s \<Rightarrow>
          (if first_digits s = [] then (Inr None, w)
           else (case int_of_str py (first_digits s) of
                   Inl e \<Rightarrow> (Inl e, w)
                 | Inr order \<Rightarrow>
                     (case select_active_articles target_law_id order w of
                        (Inl e, w1) \<Rightarrow> (Inl e, w1)
                      | (Inr [], w1) \<Rightarrow> (Inr None, w1)
                      | (Inr (i # ids), w1) \<Rightarrow> (Inr (Some i), w1))))
      | _ \<Rightarrow> (Inl TypeError, w))"

definition find_target_article_v50 :: "python \<Rightarrow> string \<Rightarrow> json \<Rightarrow> world \<Rightarrow> string option \<times> world" where
  "find_target_article_v50 py target_law_id article_number w =
     (case find_target_article_v50_try py target_law_id article_number w of
        (Inr found, w1) \<Rightarrow> (found, w1)
      | (Inl e, w1) \<Rightarrow> (None, log_add (DEBUG, ErrorFindingTargetArticle e) w1))"

subsection \<open>Status update of the target article\<close>

definition update_target_article_status_v50 :: "python \<Rightarrow> string \<Rightarrow> json \<Rightarrow> string \<Rightarrow> world \<Rightarrow> world" where
  "update_target_article_status_v50 py target_article_id relationship source_enactment_date w =
     (if relationship \<noteq> JString ''revokes'' \<and> relationship \<noteq> JString ''amends'' then w
      else
        (let new_status = (if relationship = JString ''revokes'' then ''REVOKED''
                           else ''SUPERSEDED'')
         in case fromisoformat py source_enactment_date of
              Inl e \<Rightarrow> log_add (WARNING, FailedToUpdateArticleStatus e) w
            | Inr enactment \<Rightarrow>
                (case minus_one_day enactment of
                   Inl e \<Rightarrow> log_add (WARNING, FailedToUpdateArticleStatus e) w
                 | Inr day_before \<Rightarrow>
                     (case update_article target_article_id new_status (isoformat day_before) w of
                        (Inl e, w1) \<Rightarrow> log_add (WARNING, FailedToUpdateArticleStatus e) w1
                      | (Inr u, w1) \<Rightarrow>
                          log_add (INFO, UpdatedArticle target_article_id new_status
                                            (isoformat day_before)) w1))))"

subsection \<open>The linker\<close>

text \<open>
  \<^verbatim>\<open>ref.get(key)\<close> and \<^verbatim>\<open>ref.get(key, default)\<close> on a dict; \<^verbatim>\<open>None\<close> is \<open>JNull\<close>.
\<close>

definition dict_get :: "(string \<times> json) list \<Rightarrow> string \<Rightarrow> json \<Rightarrow> json" where
  "dict_get kvs k d = (case map_of kvs k of None \<Rightarrow> d | Some v \<Rightarrow> v)"

text \<open>The truth value of an \<^verbatim>\<open>Optional[str]\<close>: neither \<^verbatim>\<open>None\<close> nor the empty string.\<close>

definition known :: "string option \<Rightarrow> bool" where
  "known d = (case d of None \<Rightarrow> False | Some s \<Rightarrow> s \<noteq> [])"

definition amends_or_revokes :: "json \<Rightarrow> bool" where
  "amends_or_revokes relationship =
     (relationship = JString ''amends'' \<or> relationship = JString ''revokes'')"

text \<open>\<^verbatim>\<open># Sanity check: temporal consistency\<close>\<close>

definition temporal_check ::
  "string \<Rightarrow> string option \<Rightarrow> json \<Rightarrow> string \<Rightarrow> string option \<Rightarrow> world \<Rightarrow> world" where
  "temporal_check source_law_id source_enactment_date relationship target_law_id
       target_enactment_date w =
     (case (relationship, source_enactment_date, target_enactment_date) of
        (JString rel, Some sd, Some td) \<Rightarrow>
          if amends_or_revokes relationship \<and> sd \<noteq> [] \<and> td \<noteq> [] \<and> str_lt sd td
          then log_add (WARNING, TemporalInconsistency source_law_id sd rel target_law_id td) w
          else w
      | _ \<Rightarrow> w)"

text \<open>
  \<^verbatim>\<open># A) Insert law-to-law relationship\<close>: the inner \<^verbatim>\<open>try\<close> of
  \<^verbatim>\<open>_process_and_link_references\<close> with its handler; the result is the counter
  \<^verbatim>\<open>law_relationships\<close> and the state. \<^verbatim>\<open>relationship.upper()\<close> raises \<^verbatim>\<open>AttributeError\<close>
  on a value that is not a string.
\<close>

definition insert_law_to_law ::
  "python \<Rightarrow> string \<Rightarrow> string option \<Rightarrow> json \<Rightarrow> law_hit \<Rightarrow> nat \<Rightarrow> world \<Rightarrow> nat \<times> world" where
  "insert_law_to_law py source_law_id source_enactment_date relationship target_law n w =
     (let w1 = temporal_check source_law_id source_enactment_date relationship
                 (fst target_law) (snd target_law) w
      in case relationship of
           JString rel \<Rightarrow>
             (case insert_law_relationship (source_law_id, fst target_law, upper py rel) w1 of
                (Inl e, w2) \<Rightarrow> (n, log_add (DEBUG, LawRelationshipExistsOrFailed e) w2)
              | (Inr u, w2) \<Rightarrow>
                  (n + 1, log_add (DEBUG, LawRelationship source_law_id (fst target_law) rel)
                            w2))
         | _ \<Rightarrow> (n, log_add (DEBUG, LawRelationshipExistsOrFailed AttributeError) w1))"

text \<open>
  \<^verbatim>\<open># B) Insert article-to-article relationship\<close> and
  \<^verbatim>\<open># C) Update target article status\<close>, which is inside the \<^verbatim>\<open>try\<close> of B, after the insert.
\<close>

definition insert_article_to_article ::
  "python \<Rightarrow> string \<Rightarrow> string option \<Rightarrow> json \<Rightarrow> json \<Rightarrow> string \<Rightarrow> nat \<Rightarrow> world \<Rightarrow> nat \<times> world" where
  "insert_article_to_article py source_article_id source_enactment_date relationship
       ref_article_number target_law_id n w =
     (if truthy ref_article_number then
        (case find_target_article_v50 py target_law_id ref_article_number w of
           (None, w1) \<Rightarrow> (n, w1)
         | (Some target_article_id, w1) \<Rightarrow>
             if target_article_id = [] then (n, w1)
             else
               (case relationship of
                  JString rel \<Rightarrow>
                    (case insert_law_article_reference
                            (source_article_id, target_article_id, upper py rel) w1 of
                       (Inl e, w2) \<Rightarrow> (n, log_add (DEBUG, ArticleReferenceExistsOrFailed e) w2)
                     | (Inr u, w2) \<Rightarrow>
                         (let w3 = log_add (DEBUG, ArticleReference source_article_id
                                                     target_article_id) w2
                          in (n + 1,
                              case source_enactment_date of
                                Some sd \<Rightarrow>
                                  if amends_or_revokes relationship \<and> sd \<noteq> []
                                  then update_target_article_status_v50 py target_article_id
                                         relationship sd w3
                                  else w3
                              | None \<Rightarrow> w3)))
                | _ \<Rightarrow> (n, log_add (DEBUG, ArticleReferenceExistsOrFailed AttributeError) w1)))
      else (n, w))"

text \<open>
  One turn of the loop of \<^verbatim>\<open>_process_and_link_references\<close>, with the outer handler: a
  reference that is not a dict has no \<^verbatim>\<open>get\<close> (\<^verbatim>\<open>AttributeError\<close>). The pair of numbers is
  \<^verbatim>\<open>(law_relationships, article_references)\<close>.
\<close>

definition link_reference ::
  "python \<Rightarrow> (json \<Rightarrow> string) \<Rightarrow> string \<Rightarrow> string \<Rightarrow> string option \<Rightarrow> json \<Rightarrow> nat \<times> nat \<Rightarrow> world
     \<Rightarrow> (nat \<times> nat) \<times> world" where
  "link_reference py str_of source_article_id source_law_id source_enactment_date ref counts w =
     (case ref of
        JObject kvs \<Rightarrow>
          (let relationship = dict_get kvs ''relationship'' (JString ''cites'');
               ref_url = dict_get kvs ''url'' JNull;
               ref_number = dict_get kvs ''number'' JNull;
               ref_article_number = dict_get kvs ''article_number'' JNull
           in if \<not> truthy ref_url \<and> \<not> truthy ref_number then (counts, w)
              else
                (case find_target_law_v50 str_of ref_url ref_number w of
                   (None, w1) \<Rightarrow> (counts, log_add (DEBUG, TargetLawNotFound ref) w1)
                 | (Some target_law, w1) \<Rightarrow>
                     (case insert_law_to_law py source_law_id source_enactment_date relationship
                             target_law (fst counts) w1 of
                        (law_relationships_n, w2) \<Rightarrow>
                          (case insert_article_to_article py source_article_id
                                  source_enactment_date relationship ref_article_number
                                  (fst target_law) (snd counts) w2 of
                             (article_references_n, w3) \<Rightarrow>
                               ((law_relationships_n, article_references_n), w3)))))
      | _ \<Rightarrow> (counts, log_add (WARNING, FailedToProcessReference ref AttributeError) w))"

fun link_references ::
  "python \<Rightarrow> (json \<Rightarrow> string) \<Rightarrow> string \<Rightarrow> string \<Rightarrow> string option \<Rightarrow> json list \<Rightarrow> nat \<times> nat \<Rightarrow> world
     \<Rightarrow> (nat \<times> nat) \<times> world" where
  "link_references py str_of source_article_id source_law_id source_enactment_date [] counts w =
     (counts, w)"
| "link_references py str_of source_article_id source_law_id source_enactment_date (ref # refs)
       counts w =
     (case link_reference py str_of source_article_id source_law_id source_enactment_date ref
             counts w of
        (counts1, w1) \<Rightarrow>
          link_references py str_of source_article_id source_law_id source_enactment_date refs
            counts1 w1)"

definition process_and_link_references ::
  "python \<Rightarrow> (json \<Rightarrow> string) \<Rightarrow> string \<Rightarrow> string \<Rightarrow> string option \<Rightarrow> json list \<Rightarrow> world
     \<Rightarrow> (nat \<times> nat) \<times> world" where
  "process_and_link_references py str_of source_article_id source_law_id source_enactment_date
       cross_references w =
     link_references py str_of source_article_id source_law_id source_enactment_date
       cross_references (0, 0) w"

text \<open>
  One turn of the loop of \<^verbatim>\<open>_process_preamble_references\<close>, which makes law-to-law
  relationships only; a reference whose target is not found is passed over without a log
  entry, and a created relationship is logged at level INFO.
\<close>

definition link_preamble_reference ::
  "python \<Rightarrow> (json \<Rightarrow> string) \<Rightarrow> string \<Rightarrow> string option \<Rightarrow> json \<Rightarrow> nat \<Rightarrow> world \<Rightarrow> nat \<times> world" where
  "link_preamble_reference py str_of source_law_id source_enactment_date ref n w =
     (case ref of
        JObject kvs \<Rightarrow>
          (if \<not> truthy (dict_get kvs ''url'' JNull) \<and> \<not> truthy (dict_get kvs ''number'' JNull)
           then (n, w)
           else
             (case find_target_law_v50 str_of (dict_get kvs ''url'' JNull)
                     (dict_get kvs ''number'' JNull) w of
                (None, w1) \<Rightarrow> (n, w1)
              | (Some target_law, w1) \<Rightarrow>
                  (let relationship = dict_get kvs ''relationship'' (JString ''cites'');
                       w2 = temporal_check source_law_id source_enactment_date relationship
                              (fst target_law) (snd target_law) w1
                   in case relationship of
                        JString rel \<Rightarrow>
                          (case insert_law_relationship
                                  (source_law_id, fst target_law, upper py rel) w2 of
                             (Inl e, w3) \<Rightarrow>
                               (n, log_add (DEBUG, LawRelationshipExistsOrFailed e) w3)
                           | (Inr u, w3) \<Rightarrow>
                               (n + 1,
                                log_add (INFO, PreambleLawRelationship source_law_id
                                                 (fst target_law) rel) w3))
                      | _ \<Rightarrow>
                          (n, log_add (DEBUG, LawRelationshipExistsOrFailed AttributeError)
                                w2))))
      | _ \<Rightarrow> (n, log_add (WARNING, FailedToProcessPreambleReference ref AttributeError) w))"

fun preamble_references ::
  "python \<Rightarrow> (json \<Rightarrow> string) \<Rightarrow> string \<Rightarrow> string option \<Rightarrow> json list \<Rightarrow> nat \<Rightarrow> world \<Rightarrow> nat \<times> world" where
  "preamble_references py str_of source_law_id source_enactment_date [] n w = (n, w)"
| "preamble_references py str_of source_law_id source_enactment_date (ref # refs) n w =
     (case link_preamble_reference py str_of source_law_id source_enactment_date ref n w of
        (n1, w1) \<Rightarrow> preamble_references py str_of source_law_id source_enactment_date refs n1 w1)"

definition process_preamble_references ::
  "python \<Rightarrow> (json \<Rightarrow> string) \<Rightarrow> string \<Rightarrow> string option \<Rightarrow> json list \<Rightarrow> world \<Rightarrow> nat \<times> world" where
  "process_preamble_references py str_of source_law_id source_enactment_date cross_references w =
     preamble_references py str_of source_law_id source_enactment_date cross_references 0 w"

subsection \<open>Concrete collaborators for the examples\<close>

text \<open>
  A backend that answers every prompt with one fixed text, a backend that is down, a backend
  whose response carries no text (reading \<^verbatim>\<open>response.text\<close> raises), and a
  parser that knows three texts (what \<^verbatim>\<open>json.loads\<close> returns on them) and rejects the rest.
\<close>

definition answering :: "string \<Rightarrow> backend" where
  "answering text analysis_prompt = Inr (Response (Inr text))"

definition unreachable :: backend where
  "unreachable analysis_prompt = Inl BackendError"

definition blocked :: backend where
  "blocked analysis_prompt = Inr (Response (Inl ValueError))"

definition full_text :: string where
  \<open>full_text = ''{"tags": {}, "analysis": {}, "cross_references": []}''\<close>

definition loads_example :: json_loads where
  "loads_example s =
     (if s = ''{}'' then Inr (JObject [])
      else if s = ''7'' then Inr (JInt 7)
      else if s = full_text
        then Inr (JObject [(''tags'', JObject []), (''analysis'', JObject []),
                           (''cross_references'', JArray [])])
      else Inl JSONDecodeError)"


text \<open>
  A store for the examples: two laws, the second with one active article, no links yet, and
  no failing request. The references of the examples hold strings and \<^verbatim>\<open>None\<close> only, for
  which \<open>str_of_example\<close> is Python's \<^verbatim>\<open>str()\<close>.
\<close>

definition python_example :: python where
  "python_example = \<lparr>py_upper = map upper_char, py_fromisoformat = (\<lambda>s. Inl ValueError),
                       py_int = (\<lambda>ds. Inl ValueError)\<rparr>"

definition str_of_example :: "json \<Rightarrow> string" where
  "str_of_example v = (case v of JString s \<Rightarrow> s | JNull \<Rightarrow> ''None'' | _ \<Rightarrow> [])"

definition law_19478 :: law_row where
  "law_19478 = \<lparr>law_id = ''law-19478'', slug = ''19478-1931-211983'',
                 official_number = ''19478'', enactment_date = Some ''1931-03-20''\<rparr>"

definition law_41 :: law_row where
  "law_41 = \<lparr>law_id = ''law-41'', slug = ''41-2023-0a1b2c3d'',
              official_number = ''41/2023'', enactment_date = Some ''2023-06-02''\<rparr>"

definition article_5 :: article_row where
  "article_5 = \<lparr>article_id = ''art-5'', article_law_id = ''law-41'', article_order = 5,
                 status_id = ''ACTIVE'', valid_to = None\<rparr>"

definition example_store :: world where
  "example_store = \<lparr>laws = [law_19478, law_41], law_articles = [article_5],
                     law_relationships = [], law_article_references = [],
                     faults = [], logged = []\<rparr>"



definition amends_fields :: "(string \<times> json) list" where
  "amends_fields = [(''relationship'', JString ''amends''), (''type'', JString ''Lei''),
                    (''number'', JString ''41/2023''), (''url'', JNull)]"

definition ref_amends :: json where
  "ref_amends = JObject amends_fields"



definition internal_fields :: "(string \<times> json) list" where
  "internal_fields = [(''relationship'', JString ''references_internal''),
                      (''article_number'', JString ''2''), (''url'', JNull)]"

definition ref_internal :: json where
  "ref_internal = JObject internal_fields"

section \<open>Properties of the structured extraction\<close>

lemma update_absent: "k \<notin> set (map fst kvs) \<Longrightarrow> AList.update k v kvs = kvs @ [(k, v)]"
  by (induction kvs) auto

lemma set_if_missing_object:
  "set_if_missing (JObject kvs) k d =
     Inr (JObject (kvs @ (if k \<in> set (map fst kvs) then [] else [(k, d)])))"
  by (simp add: set_if_missing_def update_absent)

lemma normalize_structure_v50_object:
  "normalize_structure_v50 (JObject kvs) =
     Inr (JObject (kvs @ (if ''tags'' \<in> set (map fst kvs) then [] else [(''tags'', empty_tags)])
            @ (if ''cross_references'' \<in> set (map fst kvs) then []
               else [(''cross_references'', JArray [])])))"
  by (simp add: normalize_structure_v50_def set_if_missing_object)

text \<open>What the parser returned is not a container: the key test raises.\<close>

lemma normalize_structure_v50_scalar:
  "normalize_structure_v50 JNull = Inl TypeError"
  "normalize_structure_v50 (JBool b) = Inl TypeError"
  "normalize_structure_v50 (JInt i) = Inl TypeError"
  "normalize_structure_v50 (JFloat f) = Inl TypeError"
  by (simp_all add: normalize_structure_v50_def set_if_missing_def)

text \<open>The fallback has the shape the validation asks for: validating it changes nothing.\<close>

lemma normalize_structure_v50_fallback:
  "normalize_structure_v50 fallback_v50 = Inr fallback_v50"
  by (simp add: fallback_v50_def normalize_structure_v50_object)

lemma strip_examples: "strip [] = []" "strip ''7'' = ''7''" "strip ''{}'' = ''{}''"
  by (simp_all add: strip_def is_space_def)

lemma clean_examples:
  "clean_response [] = []" "clean_response ''7'' = ''7''" "clean_response ''{}'' = ''{}''"
  by (simp_all add: clean_response_def startswith_def endswith_def)

lemma strip_full: "strip full_text = full_text"
  by (simp add: strip_def is_space_def full_text_def)

lemma clean_full: "clean_response full_text = full_text"
  by (simp add: clean_response_def startswith_def endswith_def full_text_def)

text \<open>
  Claim C1. \<^verbatim>\<open>_analyze_content_v50\<close> returns a value for every backend, parser and prompt (its
  result type has no exception), and on each failure it returns the fixed fallback and logs
  the error: when the backend raises, when the response has no text, when the cleaned text
  does not parse, and when the validation of the parsed value raises. The fallback is the
  dict with the three empty tag lists under \<^verbatim>\<open>tags\<close>, the empty title and the empty summary
  in \<^verbatim>\<open>pt\<close> and in \<^verbatim>\<open>en\<close> under \<^verbatim>\<open>analysis\<close>, and the empty list under
  \<^verbatim>\<open>cross_references\<close>. Whenever the result is not the fallback, the backend answered, the
  text parsed and the result is the validated parsed value.
\<close>

theorem analyze_content_v50_failure_fallback:
  fixes model :: backend and loads :: json_loads
  shows "fallback_v50
        = JObject [(''tags'', JObject [(''person'', JArray []), (''organization'', JArray []),
                                       (''concept'', JArray [])]),
                   (''analysis'',
                    JObject [(''pt'', JObject [(''informal_summary_title'', JString []),
                                               (''informal_summary'', JString [])]),
                             (''en'', JObject [(''informal_summary_title'', JString []),
                                               (''informal_summary'', JString [])])]),
                   (''cross_references'', JArray [])]
    \<and> (\<forall>e. model p = Inl e \<longrightarrow>
            analyze_content_v50 model loads p = (fallback_v50, [(ERROR, AnalysisFailed e)]))
    \<and> (\<forall>r e. model p = Inr r \<and> response_text r = Inl e \<longrightarrow>
            analyze_content_v50 model loads p = (fallback_v50, [(ERROR, AnalysisFailed e)]))
    \<and> (\<forall>r t e. model p = Inr r \<and> response_text r = Inr t
            \<and> loads (clean_response (strip t)) = Inl e \<longrightarrow>
            analyze_content_v50 model loads p = (fallback_v50, [(ERROR, AnalysisFailed e)]))
    \<and> (\<forall>r t a e. model p = Inr r \<and> response_text r = Inr t
            \<and> loads (clean_response (strip t)) = Inr a \<and> normalize_structure_v50 a = Inl e \<longrightarrow>
            analyze_content_v50 model loads p = (fallback_v50, [(ERROR, AnalysisFailed e)]))
    \<and> (fst (analyze_content_v50 model loads p) = fallback_v50
        \<or> (\<exists>r t a. model p = Inr r \<and> response_text r = Inr t
              \<and> loads (clean_response (strip t)) = Inr a
              \<and> normalize_structure_v50 a = Inr (fst (analyze_content_v50 model loads p))))"
proof -
  have shape: "fallback_v50
        = JObject [(''tags'', JObject [(''person'', JArray []), (''organization'', JArray []),
                                       (''concept'', JArray [])]),
                   (''analysis'',
                    JObject [(''pt'', JObject [(''informal_summary_title'', JString []),
                                               (''informal_summary'', JString [])]),
                             (''en'', JObject [(''informal_summary_title'', JString []),
                                               (''informal_summary'', JString [])])]),
                   (''cross_references'', JArray [])]"
    by (simp add: fallback_v50_def empty_tags_def empty_summary_def)
  have rest: "(\<forall>e. model p = Inl e \<longrightarrow>
            analyze_content_v50 model loads p = (fallback_v50, [(ERROR, AnalysisFailed e)]))
    \<and> (\<forall>r e. model p = Inr r \<and> response_text r = Inl e \<longrightarrow>
            analyze_content_v50 model loads p = (fallback_v50, [(ERROR, AnalysisFailed e)]))
    \<and> (\<forall>r t e. model p = Inr r \<and> response_text r = Inr t
            \<and> loads (clean_response (strip t)) = Inl e \<longrightarrow>
            analyze_content_v50 model loads p = (fallback_v50, [(ERROR, AnalysisFailed e)]))
    \<and> (\<forall>r t a e. model p = Inr r \<and> response_text r = Inr t
            \<and> loads (clean_response (strip t)) = Inr a \<and> normalize_structure_v50 a = Inl e \<longrightarrow>
            analyze_content_v50 model loads p = (fallback_v50, [(ERROR, AnalysisFailed e)]))
    \<and> (fst (analyze_content_v50 model loads p) = fallback_v50
        \<or> (\<exists>r t a. model p = Inr r \<and> response_text r = Inr t
              \<and> loads (clean_response (strip t)) = Inr a
              \<and> normalize_structure_v50 a = Inr (fst (analyze_content_v50 model loads p))))"
    by (auto simp: analyze_content_v50_def analyze_content_v50_try_def split: sum.splits)
  show ?thesis
    by (rule conjI [OF shape rest])
qed

theorem analyze_content_v50_failure_fallback_witness:
  "analyze_content_v50 unreachable loads_example ''p''
     = (JObject [(''tags'', JObject [(''person'', JArray []), (''organization'', JArray []),
                                     (''concept'', JArray [])]),
                 (''analysis'',
                  JObject [(''pt'', JObject [(''informal_summary_title'', JString []),
                                             (''informal_summary'', JString [])]),
                           (''en'', JObject [(''informal_summary_title'', JString []),
                                             (''informal_summary'', JString [])])]),
                 (''cross_references'', JArray [])],
        [(ERROR, AnalysisFailed BackendError)])
   \<and> analyze_content_v50 unreachable loads_example ''p''
     = (fallback_v50, [(ERROR, AnalysisFailed BackendError)])
   \<and> analyze_content_v50 blocked loads_example ''p''
     = (fallback_v50, [(ERROR, AnalysisFailed ValueError)])
   \<and> analyze_content_v50 (answering []) loads_example ''p''
     = (fallback_v50, [(ERROR, AnalysisFailed JSONDecodeError)])
   \<and> analyze_content_v50 (answering ''7'') loads_example ''p''
     = (fallback_v50, [(ERROR, AnalysisFailed TypeError)])"
  using analyze_content_v50_failure_fallback [of unreachable "''p''" loads_example]
    analyze_content_v50_failure_fallback [of blocked "''p''" loads_example]
    analyze_content_v50_failure_fallback [of "answering []" "''p''" loads_example]
    analyze_content_v50_failure_fallback [of "answering ''7''" "''p''" loads_example]
  by (simp add: unreachable_def blocked_def answering_def loads_example_def strip_examples
      clean_examples normalize_structure_v50_scalar full_text_def)

text \<open>The operation of \<^verbatim>\<open>kritis_analyzer_v6.py\<close> has the same handler.\<close>

lemma analyze_content_v6_map_failure_fallback:
  fixes model :: backend and loads :: json_loads
  shows "analyze_content_v6_map_try model loads p = Inl e \<Longrightarrow>
           analyze_content_v6_map model loads p = (fallback_v6, [(ERROR, AnalysisFailed e)])"
  by (simp add: analyze_content_v6_map_def)




text \<open>
  Claim C8. When the cleaned response parses to a JSON object that already has the keys
  \<^verbatim>\<open>tags\<close> and \<^verbatim>\<open>cross_references\<close> (the two keys the validation looks for; an object with
  all declared keys has them), the operation returns exactly the parsed object: no entry is
  altered, added, removed or moved, and nothing is logged.
\<close>

theorem analyze_content_v50_identity:
  fixes model :: backend and loads :: json_loads
  assumes "model p = Inr r" and "response_text r = Inr t"
    and "loads (clean_response (strip t)) = Inr (JObject kvs)"
    and "''tags'' \<in> set (map fst kvs)" and "''cross_references'' \<in> set (map fst kvs)"
  shows "analyze_content_v50 model loads p = (JObject kvs, [])"
  using assms
  by (simp add: analyze_content_v50_def analyze_content_v50_try_def
      normalize_structure_v50_object)

theorem analyze_content_v50_identity_witness:
  "answering full_text ''p'' = Inr (Response (Inr full_text))
   \<and> loads_example (clean_response (strip full_text))
       = Inr (JObject [(''tags'', JObject []), (''analysis'', JObject []),
                       (''cross_references'', JArray [])])
   \<and> analyze_content_v50 (answering full_text) loads_example ''p''
       = (JObject [(''tags'', JObject []), (''analysis'', JObject []),
                   (''cross_references'', JArray [])], [])"
proof -
  have a: "answering full_text ''p'' = Inr (Response (Inr full_text))"
    by (simp add: answering_def)
  have b: "response_text (Response (Inr full_text)) = Inr full_text"
    by simp
  have c: "loads_example (clean_response (strip full_text))
       = Inr (JObject [(''tags'', JObject []), (''analysis'', JObject []),
                       (''cross_references'', JArray [])])"
    by (simp add: strip_full clean_full) (simp add: loads_example_def full_text_def)
  show ?thesis
    using a c analyze_content_v50_identity
        [where model = "answering full_text" and p = "''p''" and loads = loads_example, OF a b c]
    by simp
qed

section \<open>Properties of the calendar functions\<close>










text \<open>\<^verbatim>\<open>date.isoformat\<close> writes the form that \<^verbatim>\<open>fromisoformat\<close> reads.\<close>

lemma digit_char_code: "(of_char (digit_char n) :: nat) = 48 + n mod 10"
proof -
  have "48 + n mod 10 < 256" by simp
  then show ?thesis
    unfolding digit_char_def by (simp add: of_char_of)
qed


lemma digit_char_is_digit: "is_digit (digit_char n)"
  by (simp add: is_digit_def digit_char_code)

lemma digit_char_not_dash: "digit_char n \<noteq> CHR ''-''"
  using digit_char_is_digit [of n] by (auto simp: is_digit_def)





section \<open>Properties of the linker\<close>

subsection \<open>What each step leaves unchanged\<close>

lemma log_add_fields [simp]:
  "laws (log_add e w) = laws w"
  "law_articles (log_add e w) = law_articles w"
  "law_relationships (log_add e w) = law_relationships w"
  "law_article_references (log_add e w) = law_article_references w"
  "faults (log_add e w) = faults w"
  "logged (log_add e w) = logged w @ [e]"
  by (simp_all add: log_add_def)

lemma next_request_fields [simp]:
  "laws (next_request w) = laws w"
  "law_articles (next_request w) = law_articles w"
  "law_relationships (next_request w) = law_relationships w"
  "law_article_references (next_request w) = law_article_references w"
  "faults (next_request w) = tl (faults w)"
  "logged (next_request w) = logged w"
  by (simp_all add: next_request_def)

lemma request_fails_log_add [simp]: "request_fails (log_add e w) = request_fails w"
  by (simp add: request_fails_def)

lemma no_faults [simp]:
  "faults w = [] \<Longrightarrow> \<not> request_fails w"
  "faults w = [] \<Longrightarrow> next_request w = w"
  by (simp_all add: request_fails_def next_request_def)

lemma link_references_append:
  "link_references py str_of sa sl sd (xs @ ys) counts w =
     (case link_references py str_of sa sl sd xs counts w of
        (counts1, w1) \<Rightarrow> link_references py str_of sa sl sd ys counts1 w1)"
  by (induction xs arbitrary: counts w) (auto split: prod.splits)

lemma preamble_references_append:
  "preamble_references py str_of sl sd (xs @ ys) n w =
     (case preamble_references py str_of sl sd xs n w of
        (n1, w1) \<Rightarrow> preamble_references py str_of sl sd ys n1 w1)"
  by (induction xs arbitrary: n w) (auto split: prod.splits)

lemma temporal_check_fields [simp]:
  "laws (temporal_check sl sd rel tid td w) = laws w"
  "law_articles (temporal_check sl sd rel tid td w) = law_articles w"
  "law_relationships (temporal_check sl sd rel tid td w) = law_relationships w"
  "law_article_references (temporal_check sl sd rel tid td w) = law_article_references w"
  "faults (temporal_check sl sd rel tid td w) = faults w"
  by (simp_all add: temporal_check_def split: json.splits option.splits)

lemma select_laws_world:
  "select_laws m w = (r, w1) \<Longrightarrow> w1 = next_request w"
  by (auto simp: select_laws_def split: if_splits)

lemma url_based_matching_world:
  "url_based_matching url w = (r, w1) \<Longrightarrow> w1 = w \<or> w1 = next_request w"
  by (auto simp: url_based_matching_def split: if_splits json.splits option.splits prod.splits sum.splits
      dest: select_laws_world)

lemma number_based_matching_world:
  "number_based_matching str_of number w = (r, w1) \<Longrightarrow>
     w1 = w \<or> w1 = next_request w \<or> w1 = next_request (next_request w)"
  by (auto simp: number_based_matching_def split: if_splits prod.splits sum.splits list.splits
      dest: select_laws_world)

lemma find_target_law_v50_try_tables:
  assumes "find_target_law_v50_try str_of url number w = (r, w1)"
  shows "laws w1 = laws w \<and> law_articles w1 = law_articles w
    \<and> law_relationships w1 = law_relationships w
    \<and> law_article_references w1 = law_article_references w
    \<and> logged w1 = logged w \<and> (faults w = [] \<longrightarrow> faults w1 = [])"
  using assms
  by (auto simp: find_target_law_v50_try_def split: prod.splits sum.splits option.splits
      dest!: url_based_matching_world number_based_matching_world)

lemma find_target_law_v50_tables:
  assumes "find_target_law_v50 str_of url number w = (r, w1)"
  shows "laws w1 = laws w \<and> law_articles w1 = law_articles w
    \<and> law_relationships w1 = law_relationships w
    \<and> law_article_references w1 = law_article_references w
    \<and> (faults w = [] \<longrightarrow> faults w1 = [])"
  using assms
  by (auto simp: find_target_law_v50_def split: prod.splits sum.splits
      dest!: find_target_law_v50_try_tables)


lemma find_target_article_v50_tables:
  assumes "find_target_article_v50 py tid an w = (r, w1)"
  shows "laws w1 = laws w \<and> law_articles w1 = law_articles w
    \<and> law_relationships w1 = law_relationships w
    \<and> law_article_references w1 = law_article_references w
    \<and> (faults w = [] \<longrightarrow> faults w1 = [])"
  using assms
  by (auto simp: find_target_article_v50_def find_target_article_v50_try_def
      select_active_articles_def
      split: prod.splits sum.splits json.splits if_splits list.splits)

lemma update_target_article_status_v50_tables [simp]:
  "laws (update_target_article_status_v50 py a rel sd w) = laws w"
  "law_relationships (update_target_article_status_v50 py a rel sd w) = law_relationships w"
  "law_article_references (update_target_article_status_v50 py a rel sd w)
     = law_article_references w"
  by (auto simp: update_target_article_status_v50_def update_article_def Let_def
      split: sum.splits prod.splits if_splits)

lemma update_target_article_status_v50_faults:
  "faults w = [] \<Longrightarrow> faults (update_target_article_status_v50 py a rel sd w) = []"
  by (auto simp: update_target_article_status_v50_def update_article_def Let_def
      split: sum.splits prod.splits if_splits)

lemma insert_article_to_article_tables:
  assumes "insert_article_to_article py sa sd rel an tid n w = (n1, w1)"
  shows "laws w1 = laws w \<and> law_relationships w1 = law_relationships w
    \<and> (faults w = [] \<longrightarrow> faults w1 = [])"
  using assms
  by (auto simp: insert_article_to_article_def insert_law_article_reference_def Let_def
      update_target_article_status_v50_faults
      split: prod.splits sum.splits json.splits if_splits option.splits
      dest!: find_target_article_v50_tables)


lemma insert_law_to_law_rows:
  assumes "faults w = []"
  shows "law_relationships (snd (insert_law_to_law py sl sd (JString rel) (tid, td) n w))
     = (if (sl, tid, upper py rel) \<in> set (law_relationships w) then law_relationships w
        else law_relationships w @ [(sl, tid, upper py rel)])"
  using assms
  by (auto simp: insert_law_to_law_def insert_law_relationship_def Let_def
      split: prod.splits sum.splits)

lemma temporal_warnings_log_add:
  "temporal_warnings (log_add e w)
     = temporal_warnings w @ (if is_temporal_warning e then [e] else [])"
  by (simp add: temporal_warnings_def)

lemma find_target_law_v50_warnings:
  assumes "find_target_law_v50 str_of url number w = (r, w1)"
  shows "temporal_warnings w1 = temporal_warnings w"
  using assms
  by (auto simp: find_target_law_v50_def temporal_warnings_def
      split: prod.splits sum.splits dest!: find_target_law_v50_try_tables)

lemma find_target_law_v50_found_log:
  assumes "find_target_law_v50 str_of url number w = (Some hit, w1)"
  shows "logged w1 = logged w"
  using assms
  by (auto simp: find_target_law_v50_def
      split: prod.splits sum.splits dest!: find_target_law_v50_try_tables)

lemma update_target_article_status_v50_warnings:
  "temporal_warnings (update_target_article_status_v50 py a rel sd w) = temporal_warnings w"
  by (auto simp: update_target_article_status_v50_def update_article_def Let_def
      temporal_warnings_def
      split: sum.splits prod.splits if_splits)

lemma find_target_article_v50_warnings:
  assumes "find_target_article_v50 py tid an w = (r, w1)"
  shows "temporal_warnings w1 = temporal_warnings w"
  using assms
  by (auto simp: find_target_article_v50_def find_target_article_v50_try_def
      select_active_articles_def temporal_warnings_def
      split: prod.splits sum.splits json.splits if_splits list.splits)

lemma insert_article_to_article_warnings:
  assumes "insert_article_to_article py sa sd rel an tid n w = (n1, w1)"
  shows "temporal_warnings w1 = temporal_warnings w"
  using assms
  by (auto simp: insert_article_to_article_def insert_law_article_reference_def Let_def
      update_target_article_status_v50_warnings temporal_warnings_log_add
      split: prod.splits sum.splits json.splits if_splits option.splits
      dest!: find_target_article_v50_warnings)
     (auto simp: temporal_warnings_def)


lemma temporal_check_warnings:
  "temporal_warnings (temporal_check sl (Some sd) (JString rel) tid (Some td) w)
     = temporal_warnings w
       @ (if (rel = ''amends'' \<or> rel = ''revokes'') \<and> sd \<noteq> [] \<and> td \<noteq> [] \<and> str_lt sd td
          then [(WARNING, TemporalInconsistency sl sd rel tid td)] else [])"
  by (simp add: temporal_check_def amends_or_revokes_def temporal_warnings_log_add)

lemma insert_law_to_law_member:
  assumes "faults w = []"
  shows "(sl, tid, upper py rel)
           \<in> set (law_relationships (snd (insert_law_to_law py sl sd (JString rel) (tid, td) n w)))"
  using assms by (simp add: insert_law_to_law_rows)

lemma insert_law_to_law_warnings:
  "temporal_warnings (snd (insert_law_to_law py sl sd rel hit n w))
     = temporal_warnings (temporal_check sl sd rel (fst hit) (snd hit) w)"
  by (auto simp: insert_law_to_law_def insert_law_relationship_def Let_def
      temporal_warnings_log_add split: json.splits prod.splits sum.splits)
     (auto simp: temporal_warnings_def)

subsection \<open>Evaluations on the example store\<close>

lemma upper_amends: "upper py ''amends'' = ''AMENDS''"
  by code_simp


lemma find_law_41:
  "find_target_law_v50 str_of_example JNull (JString ''41/2023'') example_store
     = (Some (''law-41'', Some ''2023-06-02''), example_store)"
  by code_simp

subsection \<open>Internal references\<close>

text \<open>
  Claim C7. A reference (a dict) whose \<^verbatim>\<open>url\<close> and \<^verbatim>\<open>number\<close> are both absent or falsy is
  skipped by both loops, whatever its \<^verbatim>\<open>article_number\<close> and \<^verbatim>\<open>relationship\<close> are: the
  turn returns the counters and the whole state as they were (no law-to-law link, no
  article-to-article link, no status update, no request to the store, no log entry, no
  exception), so a list of references gives the same result with and without it.
\<close>

theorem internal_reference_skipped:
  assumes "\<not> truthy (dict_get kvs ''url'' JNull)" and "\<not> truthy (dict_get kvs ''number'' JNull)"
  shows "link_reference py str_of sa sl sd (JObject kvs) counts w = (counts, w)
    \<and> link_preamble_reference py str_of sl sd (JObject kvs) n w = (n, w)
    \<and> process_and_link_references py str_of sa sl sd (before @ JObject kvs # after) w
        = process_and_link_references py str_of sa sl sd (before @ after) w
    \<and> process_preamble_references py str_of sl sd (before @ JObject kvs # after) w
        = process_preamble_references py str_of sl sd (before @ after) w"
proof -
  have a: "link_reference py str_of sa sl sd (JObject kvs) c v = (c, v)" for c v
    using assms by (simp add: link_reference_def)
  have b: "link_preamble_reference py str_of sl sd (JObject kvs) m v = (m, v)" for m v
    using assms by (simp add: link_preamble_reference_def)
  show ?thesis
    by (simp add: a b process_and_link_references_def process_preamble_references_def
        link_references_append preamble_references_append split: prod.splits)
qed

theorem internal_reference_skipped_witness:
  "\<not> truthy (dict_get internal_fields ''url'' JNull)
   \<and> \<not> truthy (dict_get internal_fields ''number'' JNull)
   \<and> link_reference python_example str_of_example ''art-src'' ''law-src'' (Some ''2024-01-01'') ref_internal
         (0, 0) example_store = ((0, 0), example_store)
   \<and> link_preamble_reference python_example str_of_example ''law-src'' (Some ''2024-01-01'') ref_internal
         0 example_store = (0, example_store)
   \<and> process_and_link_references python_example str_of_example ''art-src'' ''law-src'' (Some ''2024-01-01'')
         [ref_internal] example_store = ((0, 0), example_store)
   \<and> process_preamble_references python_example str_of_example ''law-src'' (Some ''2024-01-01'')
         [ref_internal] example_store = (0, example_store)"
proof -
  have u: "\<not> truthy (dict_get internal_fields ''url'' JNull)"
    by (simp add: internal_fields_def dict_get_def)
  have n: "\<not> truthy (dict_get internal_fields ''number'' JNull)"
    by (simp add: internal_fields_def dict_get_def)
  show ?thesis
    using u n internal_reference_skipped [OF u n, of python_example str_of_example "''art-src''" "''law-src''"
        "Some ''2024-01-01''" "(0, 0)" example_store 0 "[]" "[]"]
    by (simp add: ref_internal_def process_and_link_references_def
        process_preamble_references_def)
qed

subsection \<open>The temporal consistency check\<close>

text \<open>
  What the check does. For a reference of kind amends or revokes whose target is resolved,
  with both enactment dates present (not \<^verbatim>\<open>None\<close>, not empty) and no failing request, the
  law-to-law LinkRecord of that kind is in the store after the turn in every case, and the
  turn logs the temporal-inconsistency warning exactly when the source date, as a string,
  is strictly less than the target date, in \<^verbatim>\<open>_process_and_link_references\<close> and in
  \<^verbatim>\<open>_process_preamble_references\<close>.
\<close>

lemma temporal_check_link_kept:
  assumes "find_target_law_v50 str_of (dict_get kvs ''url'' JNull)
             (dict_get kvs ''number'' JNull) w = (Some (tid, Some td), w1)"
    and "truthy (dict_get kvs ''url'' JNull) \<or> truthy (dict_get kvs ''number'' JNull)"
    and "faults w = []"
    and "dict_get kvs ''relationship'' (JString ''cites'') = JString rel"
    and "rel = ''amends'' \<or> rel = ''revokes''"
    and "sd \<noteq> []" and "td \<noteq> []"
  shows "(sl, tid, upper py rel)
           \<in> set (law_relationships
                   (snd (link_reference py str_of sa sl (Some sd) (JObject kvs) counts w)))
    \<and> temporal_warnings (snd (link_reference py str_of sa sl (Some sd) (JObject kvs) counts w))
        = temporal_warnings w
          @ (if str_lt sd td then [(WARNING, TemporalInconsistency sl sd rel tid td)] else [])
    \<and> (sl, tid, upper py rel)
           \<in> set (law_relationships
                   (snd (link_preamble_reference py str_of sl (Some sd) (JObject kvs) n w)))
    \<and> temporal_warnings (snd (link_preamble_reference py str_of sl (Some sd) (JObject kvs) n w))
        = temporal_warnings w
          @ (if str_lt sd td then [(WARNING, TemporalInconsistency sl sd rel tid td)] else [])"
proof -
  from assms(1,3) have t: "law_relationships w1 = law_relationships w" "faults w1 = []"
    "temporal_warnings w1 = temporal_warnings w"
    by (auto dest: find_target_law_v50_tables find_target_law_v50_warnings)
  obtain c2 w2 where s2:
    "insert_law_to_law py sl (Some sd) (JString rel) (tid, Some td) (fst counts) w1 = (c2, w2)"
    by (cases "insert_law_to_law py sl (Some sd) (JString rel) (tid, Some td) (fst counts) w1")
  obtain c3 w3 where s3:
    "insert_article_to_article py sa (Some sd) (JString rel)
       (dict_get kvs ''article_number'' JNull) tid (snd counts) w2 = (c3, w3)"
    by (cases "insert_article_to_article py sa (Some sd) (JString rel)
       (dict_get kvs ''article_number'' JNull) tid (snd counts) w2")
  have lr: "snd (link_reference py str_of sa sl (Some sd) (JObject kvs) counts w) = w3"
    using assms(1,2,4) s2 s3 by (auto simp: link_reference_def Let_def)
  have m2: "(sl, tid, upper py rel) \<in> set (law_relationships w2)"
    using insert_law_to_law_member [OF t(2), of sl tid py rel "Some sd" "Some td" "fst counts"] s2
    by simp
  have tw2: "temporal_warnings w2 = temporal_warnings w
          @ (if str_lt sd td then [(WARNING, TemporalInconsistency sl sd rel tid td)] else [])"
    using insert_law_to_law_warnings [of py sl "Some sd" "JString rel" "(tid, Some td)" "fst counts" w1]
      s2 t(3) assms(5,6,7)
    by (simp add: temporal_check_warnings)
  have a: "(sl, tid, upper py rel) \<in> set (law_relationships w3)"
    using m2 insert_article_to_article_tables [OF s3] by simp
  have b: "temporal_warnings w3 = temporal_warnings w
          @ (if str_lt sd td then [(WARNING, TemporalInconsistency sl sd rel tid td)] else [])"
    using tw2 insert_article_to_article_warnings [OF s3] by simp
  have pre: "link_preamble_reference py str_of sl (Some sd) (JObject kvs) n w
      = (case insert_law_relationship (sl, tid, upper py rel)
                (temporal_check sl (Some sd) (JString rel) tid (Some td) w1) of
           (Inl e, v) \<Rightarrow> (n, log_add (DEBUG, LawRelationshipExistsOrFailed e) v)
         | (Inr u, v) \<Rightarrow> (n + 1, log_add (INFO, PreambleLawRelationship sl tid rel) v))"
    using assms(1,2,4)
    by (auto simp: link_preamble_reference_def Let_def split: prod.splits sum.splits)
  have c: "(sl, tid, upper py rel)
           \<in> set (law_relationships
                   (snd (link_preamble_reference py str_of sl (Some sd) (JObject kvs) n w)))"
    using t(1,2) by (auto simp: pre insert_law_relationship_def)
  have d: "temporal_warnings (snd (link_preamble_reference py str_of sl (Some sd) (JObject kvs) n w))
        = temporal_warnings w
          @ (if str_lt sd td then [(WARNING, TemporalInconsistency sl sd rel tid td)] else [])"
  proof -
    have "temporal_warnings (snd (link_preamble_reference py str_of sl (Some sd) (JObject kvs) n w))
        = temporal_warnings (temporal_check sl (Some sd) (JString rel) tid (Some td) w1)"
      by (auto simp: pre insert_law_relationship_def temporal_warnings_log_add)
         (auto simp: temporal_warnings_def)
    then show ?thesis
      using t(3) assms(5,6,7) by (simp add: temporal_check_warnings)
  qed
  show ?thesis using a b c d lr by simp
qed

lemma temporal_check_link_kept_example:
  "(''law-src'', ''law-41'', ''AMENDS'')
     \<in> set (law_relationships
             (snd (link_reference python_example str_of_example ''art-src'' ''law-src'' (Some ''2020-01-01'')
                     ref_amends (0, 0) example_store)))
   \<and> temporal_warnings
        (snd (link_reference python_example str_of_example ''art-src'' ''law-src'' (Some ''2020-01-01'')
                ref_amends (0, 0) example_store))
       = [(WARNING, TemporalInconsistency ''law-src'' ''2020-01-01'' ''amends'' ''law-41''
                      ''2023-06-02'')]
   \<and> (''law-src'', ''law-41'', ''AMENDS'')
     \<in> set (law_relationships
             (snd (link_preamble_reference python_example str_of_example ''law-src'' (Some ''2020-01-01'')
                     ref_amends 0 example_store)))
   \<and> temporal_warnings
        (snd (link_preamble_reference python_example str_of_example ''law-src'' (Some ''2020-01-01'')
                ref_amends 0 example_store))
       = [(WARNING, TemporalInconsistency ''law-src'' ''2020-01-01'' ''amends'' ''law-41''
                      ''2023-06-02'')]"
proof -
  have u: "dict_get amends_fields ''url'' JNull = JNull"
    by (simp add: amends_fields_def dict_get_def)
  have n: "dict_get amends_fields ''number'' JNull = JString ''41/2023''"
    by (simp add: amends_fields_def dict_get_def)
  have h1: "find_target_law_v50 str_of_example (dict_get amends_fields ''url'' JNull)
              (dict_get amends_fields ''number'' JNull) example_store
            = (Some (''law-41'', Some ''2023-06-02''), example_store)"
    by (simp only: u n find_law_41)
  have h2: "truthy (dict_get amends_fields ''url'' JNull)
            \<or> truthy (dict_get amends_fields ''number'' JNull)"
    by (simp add: n)
  have h3: "faults example_store = []"
    by (simp add: example_store_def)
  have h4: "dict_get amends_fields ''relationship'' (JString ''cites'') = JString ''amends''"
    by (simp add: amends_fields_def dict_get_def)
  have h5: "''amends'' = ''amends'' \<or> ''amends'' = ''revokes''"
    by simp
  have h6: "''2020-01-01'' \<noteq> []" and h7: "''2023-06-02'' \<noteq> []"
    by simp_all
  have lt: "str_lt ''2020-01-01'' ''2023-06-02''"
    by code_simp
  have tw: "temporal_warnings example_store = []"
    by (simp add: temporal_warnings_def example_store_def)
  show ?thesis
    using temporal_check_link_kept [OF h1 h2 h3 h4 h5 h6 h7, of "''law-src''" python_example "''art-src''"
        "(0, 0)" 0]
    by (simp add: ref_amends_def upper_amends lt tw)
qed

text \<open>
  Claim C4. The module is to validate that a law amends or revokes earlier laws only: a
  warning is due whenever the source is not strictly later than the target, and the link is
  recorded all the same. Both loops compare with \<^verbatim>\<open><\<close>, so the boundary is missed: with the
  source enacted on the day of the target (2023-06-02) the source is not strictly later,
  the link is inserted and counted, and the log holds no warning.
\<close>

theorem temporal_equal_dates_no_warning:
  "enactment_date law_41 = Some ''2023-06-02''
   \<and> fromisoformat python_example ''2023-06-02'' = Inr (2023, 6, 2)
   \<and> \<not> str_lt ''2023-06-02'' ''2023-06-02''
   \<and> process_and_link_references python_example str_of_example ''art-src'' ''law-src'' (Some ''2023-06-02'')
         [ref_amends] example_store
       = ((1, 0), example_store\<lparr>law_relationships := [(''law-src'', ''law-41'', ''AMENDS'')],
                                 logged := [(DEBUG, LawRelationship ''law-src'' ''law-41''
                                                      ''amends'')]\<rparr>)
   \<and> process_preamble_references python_example str_of_example ''law-src'' (Some ''2023-06-02'')
         [ref_amends] example_store
       = (1, example_store\<lparr>law_relationships := [(''law-src'', ''law-41'', ''AMENDS'')],
                            logged := [(INFO, PreambleLawRelationship ''law-src'' ''law-41''
                                                ''amends'')]\<rparr>)"
  by code_simp

subsection \<open>The kind of a LinkRecord\<close>





subsection \<open>The priority order of target resolution\<close>




subsection \<open>A lookup that raises\<close>

text \<open>
  Claim C10. When the lookup of the target law raises (a request to the store fails, or
  \<^verbatim>\<open>re.search\<close> raises on a URL that is not a string), \<^verbatim>\<open>_find_target_law_v50\<close> returns
  \<^verbatim>\<open>None\<close>, having logged the exception at level DEBUG. The turn of the loop then passes
  over the reference as it does for a target that is not found: the counters are returned
  as they were, the four tables are unchanged, no exception reaches the caller, and the
  only trace is in the log at level DEBUG.
\<close>

theorem lookup_failure_skips_reference:
  assumes "find_target_law_v50_try str_of (dict_get kvs ''url'' JNull)
             (dict_get kvs ''number'' JNull) w = (Inl e, w1)"
  shows "find_target_law_v50 str_of (dict_get kvs ''url'' JNull) (dict_get kvs ''number'' JNull) w
      = (None, log_add (DEBUG, ErrorFindingTargetLaw e) w1)
    \<and> link_reference py str_of sa sl sd (JObject kvs) counts w
      = (counts, log_add (DEBUG, TargetLawNotFound (JObject kvs))
                   (log_add (DEBUG, ErrorFindingTargetLaw e) w1))
    \<and> link_preamble_reference py str_of sl sd (JObject kvs) n w
      = (n, log_add (DEBUG, ErrorFindingTargetLaw e) w1)
    \<and> laws w1 = laws w \<and> law_articles w1 = law_articles w
    \<and> law_relationships w1 = law_relationships w
    \<and> law_article_references w1 = law_article_references w"
proof -
  have t: "truthy (dict_get kvs ''url'' JNull) \<or> truthy (dict_get kvs ''number'' JNull)"
    using assms
    by (auto simp: find_target_law_v50_try_def url_based_matching_def
        number_based_matching_def split: if_splits)
  have a: "find_target_law_v50 str_of (dict_get kvs ''url'' JNull)
             (dict_get kvs ''number'' JNull) w
      = (None, log_add (DEBUG, ErrorFindingTargetLaw e) w1)"
    using assms by (simp add: find_target_law_v50_def)
  have b: "link_reference py str_of sa sl sd (JObject kvs) counts w
      = (counts, log_add (DEBUG, TargetLawNotFound (JObject kvs))
                   (log_add (DEBUG, ErrorFindingTargetLaw e) w1))"
    using t by (auto simp: link_reference_def Let_def a)
  have c: "link_preamble_reference py str_of sl sd (JObject kvs) n w
      = (n, log_add (DEBUG, ErrorFindingTargetLaw e) w1)"
    using t by (auto simp: link_preamble_reference_def a)
  show ?thesis
    using a b c find_target_law_v50_try_tables [OF assms] by simp
qed

theorem lookup_failure_skips_reference_witness:
  "find_target_law_v50_try str_of_example (dict_get amends_fields ''url'' JNull)
       (dict_get amends_fields ''number'' JNull) (example_store\<lparr>faults := [True]\<rparr>)
     = (Inl StoreError, example_store)
   \<and> find_target_law_v50 str_of_example (dict_get amends_fields ''url'' JNull)
       (dict_get amends_fields ''number'' JNull) (example_store\<lparr>faults := [True]\<rparr>)
     = (None, example_store\<lparr>logged := [(DEBUG, ErrorFindingTargetLaw StoreError)]\<rparr>)
   \<and> link_reference python_example str_of_example ''art-src'' ''law-src'' (Some ''2024-01-01'') ref_amends
       (0, 0) (example_store\<lparr>faults := [True]\<rparr>)
     = ((0, 0), example_store\<lparr>logged := [(DEBUG, ErrorFindingTargetLaw StoreError),
                                           (DEBUG, TargetLawNotFound ref_amends)]\<rparr>)
   \<and> link_preamble_reference python_example str_of_example ''law-src'' (Some ''2024-01-01'') ref_amends
       0 (example_store\<lparr>faults := [True]\<rparr>)
     = (0, example_store\<lparr>logged := [(DEBUG, ErrorFindingTargetLaw StoreError)]\<rparr>)"
proof -
  have h: "find_target_law_v50_try str_of_example (dict_get amends_fields ''url'' JNull)
       (dict_get amends_fields ''number'' JNull) (example_store\<lparr>faults := [True]\<rparr>)
     = (Inl StoreError, example_store)"
    by code_simp
  have l: "logged example_store = []"
    by (simp add: example_store_def)
  show ?thesis
    using h lookup_failure_skips_reference [OF h, of python_example "''art-src''" "''law-src''"
        "Some ''2024-01-01''" "(0, 0)" 0]
    by (simp add: ref_amends_def log_add_def l)
qed

subsection \<open>The status update of the target article\<close>




lemma update_other_kind:
  "\<not> amends_or_revokes rel \<Longrightarrow> update_target_article_status_v50 py a rel sd w = w"
  by (auto simp: update_target_article_status_v50_def amends_or_revokes_def)






end
